theory Spec2Isabelle
  imports Main "HOL-Library.Multiset" "HOL-Library.AList"
begin

section \<open>JavaScript values used by the dashboard client\<close>

text \<open>
  A JavaScript string is a sequence of UTF-16 code units.  The regular expressions of
  \<open>containsMarkdown\<close> (no \<open>u\<close> flag) and \<open>String.prototype.trim\<close> work on code units, so a
  string is modelled as the list of its code units.  \<open>str\<close> embeds an ASCII literal.
\<close>

type_synonym jsstring = "nat list"

definition str :: "string \<Rightarrow> jsstring" where
  "str s = map of_char s"

text \<open>
  A JavaScript number as far as the client needs it: an integer value (a counter, a
  difference of time values) or \<open>NaN\<close>.  The exceptions that can leave a handler.
\<close>

datatype jsnumber = Num int | NaN

datatype js_exception = SyntaxError | TypeError

text \<open>
  \<open>WhiteSpace\<close> and \<open>LineTerminator\<close> of ECMAScript: the characters matched by \<open>\s\<close> and
  removed by \<open>trim()\<close>; \<open>.\<close> matches every code unit that is not a line terminator.
\<close>

definition is_line_terminator :: "nat \<Rightarrow> bool" where
  "is_line_terminator c = (c = 10 \<or> c = 13 \<or> c = 8232 \<or> c = 8233)"

definition is_space :: "nat \<Rightarrow> bool" where
  "is_space c =
     (c = 9 \<or> c = 10 \<or> c = 11 \<or> c = 12 \<or> c = 13 \<or> c = 32 \<or> c = 160 \<or> c = 5760 \<or>
      (8192 \<le> c \<and> c \<le> 8202) \<or> c = 8232 \<or> c = 8233 \<or> c = 8239 \<or> c = 8287 \<or>
      c = 12288 \<or> c = 65279)"

definition is_digit :: "nat \<Rightarrow> bool" where
  "is_digit c = (48 \<le> c \<and> c \<le> 57)"

subsection \<open>Regular expressions of \<open>containsMarkdown\<close>\<close>

text \<open>
  The eleven patterns use only: a literal character, the classes \<open>\s\<close>, \<open>\d\<close>, \<open>.\<close>,
  \<open>[\s\S]\<close> and \<open>[-*+]\<close>, the multiline anchor \<open>^\<close>, and repetition of a single class
  (\<open>*\<close>, \<open>*?\<close>, \<open>+\<close>, \<open>{1,6}\<close>).  \<open>RegExp.prototype.test\<close> answers whether some match
  exists, so greedy and lazy repetition need not be told apart.
\<close>

datatype cls = Lit nat | Space | Digit | Dot | AnyChar | OneOf "nat list"

fun cls_ok :: "cls \<Rightarrow> nat \<Rightarrow> bool" where
  "cls_ok (Lit a) c = (c = a)"
| "cls_ok Space c = is_space c"
| "cls_ok Digit c = is_digit c"
| "cls_ok Dot c = (\<not> is_line_terminator c)"
| "cls_ok AnyChar c = True"
| "cls_ok (OneOf as) c = (c \<in> set as)"

datatype rx_item = One cls | Many cls | Between cls nat nat | LineStart

text \<open>\<open>^\<close> with the \<open>m\<close> flag: at the start of the input or right after a line terminator.\<close>

fun at_line_start :: "nat option \<Rightarrow> bool" where
  "at_line_start None = True"
| "at_line_start (Some c) = is_line_terminator c"

text \<open>
  \<open>match_here p prev s\<close>: the pattern \<open>p\<close> matches a prefix of \<open>s\<close>, where \<open>prev\<close> is the
  code unit just before \<open>s\<close> in the whole input (\<open>None\<close> at its start).
\<close>

fun match_here :: "rx_item list \<Rightarrow> nat option \<Rightarrow> jsstring \<Rightarrow> bool" where
  "match_here [] prev s = True"
| "match_here (LineStart # ps) prev s = (at_line_start prev \<and> match_here ps prev s)"
| "match_here (One c # ps) prev [] = False"
| "match_here (One c # ps) prev (x # xs) = (cls_ok c x \<and> match_here ps (Some x) xs)"
| "match_here (Many c # ps) prev [] = match_here ps prev []"
| "match_here (Many c # ps) prev (x # xs) =
     (match_here ps prev (x # xs) \<or> (cls_ok c x \<and> match_here (Many c # ps) (Some x) xs))"
| "match_here (Between c lo hi # ps) prev [] = (lo = 0 \<and> match_here ps prev [])"
| "match_here (Between c lo hi # ps) prev (x # xs) =
     ((lo = 0 \<and> match_here ps prev (x # xs)) \<or>
      (0 < hi \<and> cls_ok c x \<and> match_here (Between c (lo - 1) (hi - 1) # ps) (Some x) xs))"

text \<open>\<open>pattern.test(text)\<close>: a match starting at some position of the text.\<close>

fun search :: "rx_item list \<Rightarrow> nat option \<Rightarrow> jsstring \<Rightarrow> bool" where
  "search p prev [] = match_here p prev []"
| "search p prev (x # xs) = (match_here p prev (x # xs) \<or> search p (Some x) xs)"

definition rx_test :: "rx_item list \<Rightarrow> jsstring \<Rightarrow> bool" where
  "rx_test p text = search p None text"

definition lits :: "string \<Rightarrow> rx_item list" where
  "lits s = map (\<lambda>c. One (Lit (of_char c))) s"

definition markdownPatterns :: "rx_item list list" where
  "markdownPatterns =
    [ [LineStart, Between (Lit 35) 1 6, One Space],
      lits ''**'' @ [Many Dot] @ lits ''**'',
      lits ''*'' @ [Many Dot] @ lits ''*'',
      lits ''`'' @ [Many Dot] @ lits ''`'',
      lits ''```'' @ [Many AnyChar] @ lits ''```'',
      [LineStart, Many Space, One (OneOf (str ''-*+'')), One Space],
      [LineStart, Many Space, One Digit, Many Digit, One (Lit 46), One Space],
      lits ''['' @ [Many Dot] @ lits '']('' @ [Many Dot] @ lits '')'',
      [LineStart, Many Space, One (Lit 62), One Space],
      [LineStart, Many Space, One (Lit 124), Many Dot, One (Lit 124)],
      lits ''---'' @ [Many (Lit 45)] ]"

definition containsMarkdown :: "jsstring \<Rightarrow> bool" where
  "containsMarkdown text = list_ex (\<lambda>pattern. rx_test pattern text) markdownPatterns"

section \<open>Data model\<close>

text \<open>
  A message object as the backend sends it, with string \<open>role\<close>, \<open>message_type\<close> and
  \<open>content\<close>.  \<open>timestamp\<close> holds the time value (milliseconds) of
  \<open>new Date(messageData.timestamp)\<close>, which is all the client ever reads of it; \<open>None\<close> is
  an Invalid Date (a timestamp that does not parse or is out of range), whose time value
  is \<open>NaN\<close>.
\<close>

record message =
  role :: jsstring
  message_type :: jsstring
  content :: jsstring
  timestamp :: "int option"

text \<open>
  What \<open>addMessage\<close> is handed and the log stores: nothing on the receive path checks
  that it is a message object.  \<open>Undefined\<close> is the \<open>message\<close> field of an envelope that
  has none, \<open>Null\<close> a JSON \<open>null\<close>.
\<close>

datatype entry = Msg message | Undefined | Null

text \<open>
  The content node of a rendered message: \<open>TextContent c\<close> is \<open>contentDiv.textContent = c\<close>;
  \<open>InnerHTML c\<close> is \<open>contentDiv.innerHTML\<close> set to the output of the external converter
  \<open>marked.parse\<close> on \<open>c\<close>, with the whitespace between tags removed and trimmed.
\<close>

datatype node_content = TextContent jsstring | InnerHTML jsstring

text \<open>
  The value of \<open>roleNames[role] || role\<close>: a string, or a member that the object literal
  inherits from \<open>Object.prototype\<close> (a function or an object, named by its key).
\<close>

datatype jsval = JString jsstring | ProtoMember jsstring

record message_element =
  className :: jsstring
  el_content :: node_content
  el_timestamp :: "int option"

record timeline_element =
  tl_role :: jsval
  tl_content :: node_content
  tl_time :: "int option"

text \<open>
  The page markup is not part of the sources.  A column is the element of class \<open>column\<close>
  carrying \<open>data-role\<close>, with its \<open>messages-<role>\<close> container, its \<open>.message-count\<close>
  element and its class list; the columns are kept in document order.
\<close>

record column =
  data_role :: jsstring
  col_messages :: "message_element list"
  count_shown :: "jsnumber option"
  classList :: "string list"

text \<open>The \<open>.columns-container\<close> element: class \<open>has-active\<close> and the two layout attributes.\<close>

record layout =
  has_active :: bool
  data_active :: "jsstring option"
  data_dual_active :: "jsstring option"

datatype out_envelope = HumanInput jsstring | Interrupt jsstring

datatype timer = Reconnect | ClearNewMessage jsstring | ClearRecentlyActive jsstring

text \<open>Console lines; \<open>LogUnknownType t\<close> shows the \<open>type\<close> of the payload, \<open>None\<close> when it has
  no string \<open>type\<close>.\<close>

datatype console_entry =
  LogOpened | LogClosed | LogReconnecting | LogUnknownType "jsstring option"

text \<open>
  The application object together with the parts of the page it reads and writes.
  \<open>ws_opened\<close> counts the \<open>new WebSocket\<close> calls, \<open>ws_sent\<close> lists the frames given to
  \<open>ws.send\<close>, \<open>scheduled\<close> lists the \<open>setTimeout\<close> calls made (delay in ms, callback).
\<close>

record app =
  messages :: "entry list"
  isConnected :: bool
  messageCounts :: "(jsstring \<times> jsnumber) list"
  userSelectedColumn :: "jsstring option"
  lastMessageColumn :: "jsstring option"
  ws_opened :: nat
  ws_sent :: "out_envelope list"
  scheduled :: "(nat \<times> timer) list"
  console :: "console_entry list"
  columns :: "column list"
  container :: layout
  timeline_hidden :: bool
  timeline_messages :: "timeline_element list"
  human_input :: jsstring
  interrupt_input :: jsstring
  interrupt_modal_hidden :: bool
  send_btn_disabled :: bool
  interrupt_btn_disabled :: bool
  human_input_disabled :: bool
  connection_status :: string

definition known_roles :: "jsstring list" where
  "known_roles = [str ''human'', str ''ether'', str ''product_ai'', str ''architect_ai'',
                  str ''interface_ai'', str ''programmer_ai'']"

section \<open>Content formatter and element construction\<close>

definition roleNames :: "(jsstring \<times> jsstring) list" where
  "roleNames =
    [ (str ''human'', [55357, 56420, 32, 20154, 31867]),
      (str ''ether'', [9889, 32, 20197, 22826]),
      (str ''product_ai'', [55356, 57263, 32, 20135, 21697, 65, 73]),
      (str ''architect_ai'', [55356, 57303, 65039, 32, 26550, 26500, 65, 73]),
      (str ''interface_ai'', [55357, 56588, 32, 25509, 21475, 65, 73]),
      (str ''programmer_ai'', [55357, 56507, 32, 31243, 24207, 21592, 65, 73]) ]"

text \<open>The property names every object literal inherits from \<open>Object.prototype\<close>.\<close>

definition object_prototype_keys :: "jsstring list" where
  "object_prototype_keys =
    [ str ''constructor'', str ''__defineGetter__'', str ''__defineSetter__'',
      str ''hasOwnProperty'', str ''__lookupGetter__'', str ''__lookupSetter__'',
      str ''isPrototypeOf'', str ''propertyIsEnumerable'', str ''toString'', str ''valueOf'',
      str ''__proto__'', str ''toLocaleString'' ]"

text \<open>
  \<open>roleNames[role] || role\<close>: an own property wins; otherwise the lookup follows the
  prototype chain, and an inherited member is truthy, so it is what \<open>||\<close> returns.
\<close>

definition getRoleDisplayName :: "jsstring \<Rightarrow> jsval" where
  "getRoleDisplayName r =
     (case map_of roleNames r of
        Some label \<Rightarrow> JString label
      | None \<Rightarrow> if r \<in> set object_prototype_keys then ProtoMember r else JString r)"

definition createMessageElement :: "message \<Rightarrow> message_element" where
  "createMessageElement messageData =
     \<lparr> className = str ''message '' @ message_type messageData,
       el_content =
         (if role messageData \<noteq> str ''human'' \<and> containsMarkdown (content messageData)
          then InnerHTML (content messageData)
          else TextContent (content messageData)),
       el_timestamp = timestamp messageData \<rparr>"

definition createTimelineMessageElement :: "message \<Rightarrow> timeline_element" where
  "createTimelineMessageElement messageData =
     \<lparr> tl_role = getRoleDisplayName (role messageData),
       tl_content =
         (if role messageData \<noteq> str ''human'' \<and> containsMarkdown (content messageData)
          then InnerHTML (content messageData)
          else TextContent (content messageData)),
       tl_time = timestamp messageData \<rparr>"

section \<open>DOM helpers\<close>

text \<open>\<open>classList.add\<close> and \<open>classList.remove\<close> on an ordered set of class names.\<close>

definition class_add :: "string list \<Rightarrow> string list \<Rightarrow> string list" where
  "class_add new cl = fold (\<lambda>c acc. if c \<in> set acc then acc else acc @ [c]) new cl"

definition class_remove :: "string list \<Rightarrow> string list \<Rightarrow> string list" where
  "class_remove old cl = filter (\<lambda>c. c \<notin> set old) cl"

text \<open>
  \<open>document.querySelector('[data-role="r"]')\<close> and \<open>getElementById('messages-r')\<close> find the
  first column of that role, or nothing; \<open>update_column\<close> changes the element found.
\<close>

fun find_column :: "jsstring \<Rightarrow> column list \<Rightarrow> column option" where
  "find_column r [] = None"
| "find_column r (c # cs) = (if data_role c = r then Some c else find_column r cs)"

fun update_column :: "jsstring \<Rightarrow> (column \<Rightarrow> column) \<Rightarrow> column list \<Rightarrow> column list" where
  "update_column r f [] = []"
| "update_column r f (c # cs) = (if data_role c = r then f c # cs else c # update_column r f cs)"

text \<open>
  \<open>querySelector\<close> parses its selector first and throws a \<open>SyntaxError\<close> when the text is
  malformed.  The client pastes the role between double quotes without escaping it, so
  the selector breaks when the role contains a double quote (34), a backslash (92) or a
  line break (10, 12, 13).
\<close>

definition selector_breaks :: "jsstring \<Rightarrow> bool" where
  "selector_breaks r = list_ex (\<lambda>c. c = 34 \<or> c = 92 \<or> c = 10 \<or> c = 12 \<or> c = 13) r"

text \<open>
  Running the steps of a handler in order: the first exception ends it, with the state
  reached so far.  \<open>forEach\<close> is \<open>Array.prototype.forEach\<close> with a callback that may throw.
\<close>

definition and_then ::
  "js_exception option \<times> app \<Rightarrow> (app \<Rightarrow> js_exception option \<times> app) \<Rightarrow> js_exception option \<times> app" where
  "and_then r f = (case r of (None, s) \<Rightarrow> f s | (Some e, s) \<Rightarrow> (Some e, s))"

fun forEach ::
  "('a \<Rightarrow> app \<Rightarrow> js_exception option \<times> app) \<Rightarrow> 'a list \<Rightarrow> app \<Rightarrow> js_exception option \<times> app" where
  "forEach f [] s = (None, s)"
| "forEach f (x # xs) s = and_then (f x s) (forEach f xs)"

text \<open>A string is truthy unless it is empty; \<open>null\<close> is \<open>None\<close>.\<close>

fun truthy :: "jsstring option \<Rightarrow> bool" where
  "truthy None = False"
| "truthy (Some v) = (v \<noteq> [])"

section \<open>Connection manager\<close>

definition updateConnectionStatus :: "app \<Rightarrow> app" where
  "updateConnectionStatus s =
     (if isConnected s then s\<lparr>connection_status := ''status connected''\<rparr>
      else s\<lparr>connection_status := ''status disconnected''\<rparr>)"

definition enableControls :: "app \<Rightarrow> app" where
  "enableControls s =
     s\<lparr>send_btn_disabled := False, interrupt_btn_disabled := False, human_input_disabled := False\<rparr>"

definition disableControls :: "app \<Rightarrow> app" where
  "disableControls s =
     s\<lparr>send_btn_disabled := True, interrupt_btn_disabled := True, human_input_disabled := True\<rparr>"

text \<open>\<open>setupWebSocket\<close> creates a new socket; its three handlers are the functions below.\<close>

definition setupWebSocket :: "app \<Rightarrow> app" where
  "setupWebSocket s = s\<lparr>ws_opened := ws_opened s + 1\<rparr>"

definition onopen :: "app \<Rightarrow> app" where
  "onopen s =
     enableControls (updateConnectionStatus
       (s\<lparr>console := console s @ [LogOpened], isConnected := True\<rparr>))"

definition onclose :: "app \<Rightarrow> app" where
  "onclose s =
     (let s1 = s\<lparr>console := console s @ [LogClosed], isConnected := False\<rparr>;
          s2 = disableControls (updateConnectionStatus s1)
      in s2\<lparr>scheduled := scheduled s2 @ [(3000, Reconnect)]\<rparr>)"

section \<open>Focus state machine\<close>

text \<open>
  The roles that reach the lookups of this section are the \<open>data-role\<close> attribute of a
  column of the page (a click) and a role whose selector \<open>updateMessageCount\<close> has just
  accepted (a message), so these lookups find or miss a column and do not throw.
\<close>

definition activeColumns :: "app \<Rightarrow> jsstring list" where
  "activeColumns s =
     (if truthy (userSelectedColumn s) then [the (userSelectedColumn s)] else []) @
     (if truthy (lastMessageColumn s) \<and> lastMessageColumn s \<noteq> userSelectedColumn s
      then [the (lastMessageColumn s)] else [])"

definition emphasis_classes :: "string list" where
  "emphasis_classes = [''active'', ''user-selected'', ''message-active'']"

definition strip_emphasis :: "column \<Rightarrow> column" where
  "strip_emphasis c = c\<lparr>classList := class_remove emphasis_classes (classList c)\<rparr>"

definition add_classes :: "string list \<Rightarrow> column \<Rightarrow> column" where
  "add_classes new c = c\<lparr>classList := class_add new (classList c)\<rparr>"

definition updateColumnLayout :: "app \<Rightarrow> app" where
  "updateColumnLayout s =
     (let act = activeColumns s;
          s1 = s\<lparr>columns := map strip_emphasis (columns s)\<rparr>
      in if length act > 0 then
           (let s2 =
                  (if length act = 1 then
                     s1\<lparr>container := \<lparr>has_active = True, data_active = Some (act ! 0),
                                       data_dual_active = None\<rparr>\<rparr>
                   else if length act = 2 then
                     s1\<lparr>container := \<lparr>has_active = True, data_active = None,
                                       data_dual_active = Some (act ! 0 @ str ''-'' @ act ! 1)\<rparr>\<rparr>
                   else s1\<lparr>container := (container s1)\<lparr>has_active := True\<rparr>\<rparr>);
                s3 =
                  (if truthy (userSelectedColumn s) then
                     s2\<lparr>columns := update_column (the (userSelectedColumn s))
                                      (add_classes [''active'', ''user-selected'']) (columns s2)\<rparr>
                   else s2)
            in if truthy (lastMessageColumn s) then
                 s3\<lparr>columns := update_column (the (lastMessageColumn s))
                                  (add_classes [''active'', ''message-active'']) (columns s3)\<rparr>
               else s3)
         else
           s1\<lparr>container := \<lparr>has_active = False, data_active = None, data_dual_active = None\<rparr>\<rparr>)"

definition setUserSelectedColumn :: "jsstring \<Rightarrow> app \<Rightarrow> app" where
  "setUserSelectedColumn r s =
     (let s1 = updateColumnLayout (s\<lparr>userSelectedColumn := Some r\<rparr>)
      in s1\<lparr>columns := update_column r (add_classes [''user-selected'']) (columns s1)\<rparr>)"

text \<open>The click listener of a column: \<open>if (role) this.setUserSelectedColumn(role)\<close>.\<close>

definition column_click :: "jsstring \<Rightarrow> app \<Rightarrow> app" where
  "column_click r s = (if r \<noteq> [] then setUserSelectedColumn r s else s)"

definition setLastMessageColumn :: "jsstring \<Rightarrow> app \<Rightarrow> app" where
  "setLastMessageColumn r s =
     (let s1 = updateColumnLayout (s\<lparr>lastMessageColumn := Some r\<rparr>)
      in case find_column r (columns s1) of
           None \<Rightarrow> s1
         | Some c \<Rightarrow>
             s1\<lparr>columns := update_column r (add_classes [''recently-active'']) (columns s1),
                scheduled := scheduled s1 @ [(2000, ClearRecentlyActive r)]\<rparr>)"

section \<open>Timeline renderer\<close>

text \<open>
  The comparator \<open>(a, b) => new Date(a.timestamp) - new Date(b.timestamp)\<close>: reading
  \<open>timestamp\<close> of \<open>null\<close> throws a \<open>TypeError\<close>; the difference of two dates is \<open>NaN\<close> as
  soon as one of them is invalid.
\<close>

fun by_timestamp :: "entry \<Rightarrow> entry \<Rightarrow> js_exception + jsnumber" where
  "by_timestamp (Msg a) (Msg b) =
     (case (timestamp a, timestamp b) of
        (Some x, Some y) \<Rightarrow> Inr (Num (x - y))
      | _ \<Rightarrow> Inr NaN)"
| "by_timestamp a b = Inl TypeError"

text \<open>
  \<open>Array.prototype.sort\<close> with a comparator: a \<open>NaN\<close> result counts as \<open>0\<close>, \<open>undefined\<close>
  elements go to the end without the comparator being called, and the sort is stable:
  \<open>a\<close> stays before \<open>b\<close> unless the comparator is positive.  With a consistent
  comparator any stable sort gives the same result; this is insertion sort.  An exception
  of the comparator ends the sort.
\<close>

fun sort_order :: "jsnumber \<Rightarrow> int" where
  "sort_order NaN = 0"
| "sort_order (Num v) = v"

fun insert_by ::
  "('a \<Rightarrow> 'a \<Rightarrow> js_exception + jsnumber) \<Rightarrow> 'a \<Rightarrow> 'a list \<Rightarrow> js_exception + 'a list" where
  "insert_by cmp x [] = Inr [x]"
| "insert_by cmp x (y # ys) =
     (case cmp x y of
        Inl e \<Rightarrow> Inl e
      | Inr v \<Rightarrow>
          if sort_order v \<le> 0 then Inr (x # y # ys)
          else (case insert_by cmp x ys of Inl e \<Rightarrow> Inl e | Inr zs \<Rightarrow> Inr (y # zs)))"

fun js_sort :: "('a \<Rightarrow> 'a \<Rightarrow> js_exception + jsnumber) \<Rightarrow> 'a list \<Rightarrow> js_exception + 'a list" where
  "js_sort cmp [] = Inr []"
| "js_sort cmp (x # xs) =
     (case js_sort cmp xs of Inl e \<Rightarrow> Inl e | Inr ys \<Rightarrow> insert_by cmp x ys)"

definition array_sort ::
  "(entry \<Rightarrow> entry \<Rightarrow> js_exception + jsnumber) \<Rightarrow> entry list \<Rightarrow> js_exception + entry list" where
  "array_sort cmp xs =
     (case js_sort cmp (filter (\<lambda>e. e \<noteq> Undefined) xs) of
        Inl e \<Rightarrow> Inl e
      | Inr ys \<Rightarrow> Inr (ys @ filter (\<lambda>e. e = Undefined) xs))"

definition sortedMessages :: "app \<Rightarrow> js_exception + entry list" where
  "sortedMessages s = array_sort by_timestamp (messages s)"

text \<open>
  The loop \<open>sortedMessages.forEach(...)\<close>: \<open>createTimelineMessageElement\<close> reads
  \<open>messageData.role\<close> before anything is appended, which throws for an entry that is no
  message object.
\<close>

fun append_timeline :: "entry \<Rightarrow> app \<Rightarrow> js_exception option \<times> app" where
  "append_timeline (Msg m) s =
     (None, s\<lparr>timeline_messages := timeline_messages s @ [createTimelineMessageElement m]\<rparr>)"
| "append_timeline e s = (Some TypeError, s)"

definition renderTimelineView :: "app \<Rightarrow> js_exception option \<times> app" where
  "renderTimelineView s =
     (let s1 = s\<lparr>timeline_messages := []\<rparr>
      in case sortedMessages s1 of
           Inl e \<Rightarrow> (Some e, s1)
         | Inr sortedList \<Rightarrow> forEach append_timeline sortedList s1)"

definition toggleTimelineView :: "app \<Rightarrow> js_exception option \<times> app" where
  "toggleTimelineView s =
     (if timeline_hidden s then renderTimelineView (s\<lparr>timeline_hidden := False\<rparr>)
      else (None, s\<lparr>timeline_hidden := True\<rparr>))"

definition hideTimelineView :: "app \<Rightarrow> app" where
  "hideTimelineView s = s\<lparr>timeline_hidden := True\<rparr>"

section \<open>Message store\<close>

text \<open>
  \<open>this.messageCounts[role]++\<close>: a numeric own property is incremented; a missing or
  inherited one converts to \<open>NaN\<close>, which is stored under the key (assigning to
  \<open>__proto__\<close> a non-object stores nothing).
\<close>

definition increment :: "jsstring \<Rightarrow> (jsstring \<times> jsnumber) list \<Rightarrow> (jsstring \<times> jsnumber) list" where
  "increment r counts =
     (if r = str ''__proto__'' then counts
      else AList.update r (case map_of counts r of Some (Num n) \<Rightarrow> Num (n + 1) | _ \<Rightarrow> NaN) counts)"

definition renderMessageInColumn :: "message \<Rightarrow> app \<Rightarrow> app" where
  "renderMessageInColumn messageData s =
     (case find_column (role messageData) (columns s) of
        None \<Rightarrow> s
      | Some c \<Rightarrow>
          s\<lparr>columns :=
               update_column (role messageData)
                 (\<lambda>c. add_classes [''new-message'']
                        (c\<lparr>col_messages := col_messages c @ [createMessageElement messageData]\<rparr>))
                 (columns s),
            scheduled := scheduled s @ [(1000, ClearNewMessage (role messageData))]\<rparr>)"

text \<open>
  \<open>updateMessageCount\<close> looks the count element up with
  \<open>querySelector('[data-role="' + role + '"] .message-count')\<close>.
\<close>

definition updateMessageCount :: "jsstring \<Rightarrow> app \<Rightarrow> js_exception option \<times> app" where
  "updateMessageCount r s =
     (if selector_breaks r then (Some SyntaxError, s)
      else (None, s\<lparr>columns := update_column r
                             (\<lambda>c. c\<lparr>count_shown := map_of (messageCounts s) r\<rparr>) (columns s)\<rparr>))"

text \<open>
  \<open>playNotificationSound\<close> runs inside its own \<open>try\<close>/\<open>catch\<close> and touches neither the
  application object nor the page, so it leaves the state as it is.
\<close>

text \<open>
  \<open>addMessage\<close> pushes whatever it is handed, then reads \<open>messageData.role\<close>, which throws
  a \<open>TypeError\<close> for \<open>undefined\<close> and \<open>null\<close>.  Nothing in it catches an exception, so the
  first one ends the call, after the steps already done.
\<close>

definition addMessage :: "entry \<Rightarrow> app \<Rightarrow> js_exception option \<times> app" where
  "addMessage messageData s =
     (let s1 = s\<lparr>messages := messages s @ [messageData]\<rparr>
      in case messageData of
           Undefined \<Rightarrow> (Some TypeError, s1)
         | Null \<Rightarrow> (Some TypeError, s1)
         | Msg m \<Rightarrow>
             (let s2 = s1\<lparr>messageCounts := increment (role m) (messageCounts s1)\<rparr>;
                  s3 = renderMessageInColumn m s2
              in and_then (updateMessageCount (role m) s3)
                   (\<lambda>s4. let s5 = setLastMessageColumn (role m) s4
                         in if \<not> timeline_hidden s5 then renderTimelineView s5
                            else (None, s5))))"

section \<open>Receive path\<close>

text \<open>
  The value \<open>JSON.parse\<close> returns, by what \<open>handleWebSocketMessage\<close> does with it:
  \<open>JsonNull\<close> is \<open>null\<close>; \<open>OtherType t\<close> is any other value whose \<open>type\<close> is neither of the two
  handled strings (\<open>t\<close> is \<open>None\<close> when there is no string \<open>type\<close> at all, as for a number,
  a string or an array).  The \<open>messages\<close> field of a \<open>connection_established\<close> payload
  is missing, empty or otherwise falsy or without positive \<open>length\<close> (\<open>NoHistory\<close>), an
  array (\<open>History\<close>), or some other value of positive \<open>length\<close>, which has no \<open>forEach\<close>
  (\<open>NotAList\<close>).  A frame either makes \<open>JSON.parse\<close> throw or decodes to a payload.
\<close>

datatype history = NoHistory | History "entry list" | NotAList

datatype payload =
  JsonNull | ConnectionEstablished history | NewMessage entry | OtherType "jsstring option"

datatype frame = Unparseable | Parsed payload

definition handleWebSocketMessage :: "payload \<Rightarrow> app \<Rightarrow> js_exception option \<times> app" where
  "handleWebSocketMessage data s =
     (case data of
        JsonNull \<Rightarrow> (Some TypeError, s)
      | ConnectionEstablished NoHistory \<Rightarrow> (None, s)
      | ConnectionEstablished NotAList \<Rightarrow> (Some TypeError, s)
      | ConnectionEstablished (History msgs) \<Rightarrow>
          if length msgs > 0 then forEach addMessage msgs s else (None, s)
      | NewMessage m \<Rightarrow> addMessage m s
      | OtherType t \<Rightarrow> (None, s\<lparr>console := console s @ [LogUnknownType t]\<rparr>))"

text \<open>
  \<open>ws.onmessage\<close>: the exception that left the handler, if any, and the state afterwards.
  The handler has no \<open>try\<close>: what \<open>JSON.parse\<close> or \<open>handleWebSocketMessage\<close> throws is not
  caught.
\<close>

definition onmessage :: "frame \<Rightarrow> app \<Rightarrow> js_exception option \<times> app" where
  "onmessage event s =
     (case event of
        Unparseable \<Rightarrow> (Some SyntaxError, s)
      | Parsed data \<Rightarrow> handleWebSocketMessage data s)"

section \<open>Timers\<close>

fun timer_callback :: "timer \<Rightarrow> app \<Rightarrow> app" where
  "timer_callback Reconnect s = setupWebSocket (s\<lparr>console := console s @ [LogReconnecting]\<rparr>)"
| "timer_callback (ClearNewMessage r) s =
     s\<lparr>columns := update_column r
                     (\<lambda>c. c\<lparr>classList := class_remove [''new-message''] (classList c)\<rparr>) (columns s)\<rparr>"
| "timer_callback (ClearRecentlyActive r) s =
     s\<lparr>columns := update_column r
                     (\<lambda>c. c\<lparr>classList := class_remove [''recently-active''] (classList c)\<rparr>) (columns s)\<rparr>"

section \<open>Input controller\<close>

definition trim :: "jsstring \<Rightarrow> jsstring" where
  "trim v = rev (dropWhile is_space (rev (dropWhile is_space v)))"

definition sendHumanInput :: "app \<Rightarrow> app" where
  "sendHumanInput s =
     (let content = trim (human_input s)
      in if content = [] \<or> \<not> isConnected s then s
         else s\<lparr>ws_sent := ws_sent s @ [HumanInput content], human_input := []\<rparr>)"

definition showInterruptModal :: "app \<Rightarrow> app" where
  "showInterruptModal s = s\<lparr>interrupt_modal_hidden := False\<rparr>"

definition hideInterruptModal :: "app \<Rightarrow> app" where
  "hideInterruptModal s = s\<lparr>interrupt_modal_hidden := True, interrupt_input := []\<rparr>"

definition confirmInterrupt :: "app \<Rightarrow> app" where
  "confirmInterrupt s =
     (let content = trim (interrupt_input s)
      in if content = [] \<or> \<not> isConnected s then s
         else hideInterruptModal (s\<lparr>ws_sent := ws_sent s @ [Interrupt content]\<rparr>))"

section \<open>Start-up\<close>

text \<open>
  The constructor followed by \<open>init\<close>, on a page with the given columns: empty log, the six
  counters at zero, no focus, one socket being opened, controls disabled.
\<close>

definition constructor :: "column list \<Rightarrow> app" where
  "constructor cols =
     disableControls (updateConnectionStatus (setupWebSocket
       \<lparr> messages = [], isConnected = False,
         messageCounts = map (\<lambda>r. (r, Num 0)) known_roles,
         userSelectedColumn = None, lastMessageColumn = None,
         ws_opened = 0, ws_sent = [], scheduled = [], console = [],
         columns = cols,
         container = \<lparr>has_active = False, data_active = None, data_dual_active = None\<rparr>,
         timeline_hidden = True, timeline_messages = [],
         human_input = [], interrupt_input = [], interrupt_modal_hidden = True,
         send_btn_disabled = False, interrupt_btn_disabled = False,
         human_input_disabled = False, connection_status = [] \<rparr>))"

section \<open>Predicates and sample data used in the statements\<close>

text \<open>Every known role's counter equals the number of log entries of that role.\<close>

fun has_role :: "jsstring \<Rightarrow> entry \<Rightarrow> bool" where
  "has_role r (Msg m) = (role m = r)"
| "has_role r e = False"

definition counters_consistent :: "app \<Rightarrow> bool" where
  "counters_consistent s =
     list_all (\<lambda>r. map_of (messageCounts s) r =
                    Some (Num (int (length (filter (has_role r) (messages s)))))) known_roles"

text \<open>An entry that is a message object.\<close>

fun is_message :: "entry \<Rightarrow> bool" where
  "is_message (Msg m) = True"
| "is_message e = False"


text \<open>
  The same messages arriving live: one \<open>new_message\<close> frame each, in order, every frame
  handled by its own call of the \<open>onmessage\<close> handler.
\<close>

definition deliver_live :: "entry list \<Rightarrow> app \<Rightarrow> app" where
  "deliver_live msgs s = fold (\<lambda>m st. snd (onmessage (Parsed (NewMessage m)) st)) msgs s"

definition demo_columns :: "column list" where
  "demo_columns =
     map (\<lambda>r. \<lparr>data_role = r, col_messages = [], count_shown = None, classList = [''column'']\<rparr>)
         known_roles"

definition demo_human :: message where
  "demo_human = \<lparr>role = str ''human'', message_type = str ''input'',
                  content = str ''**bold**'', timestamp = Some 2000\<rparr>"

definition demo_agent :: message where
  "demo_agent = \<lparr>role = str ''product_ai'', message_type = str ''response'',
                  content = str ''# Title'', timestamp = Some 1000\<rparr>"

definition demo_unknown :: message where
  "demo_unknown = \<lparr>role = str ''tester_ai'', message_type = str ''response'',
                    content = str ''hello'', timestamp = Some 1000\<rparr>"

text \<open>A message whose role is \<open>x"y\<close>, one dated later, and one whose timestamp does not parse.\<close>

definition demo_quote :: message where
  "demo_quote = \<lparr>role = [120, 34, 121], message_type = str ''response'',
                  content = str ''x'', timestamp = Some 1000\<rparr>"

definition demo_late :: message where
  "demo_late = \<lparr>role = str ''human'', message_type = str ''input'',
                 content = str ''late'', timestamp = Some 3000\<rparr>"

definition demo_undated :: message where
  "demo_undated = \<lparr>role = str ''ether'', message_type = str ''response'',
                    content = str ''undated'', timestamp = None\<rparr>"

text \<open>
  One round of channel loss and recovery attempt: the \<open>close\<close> event, then the callback
  of the reconnect timer that the event scheduled.
\<close>

definition reconnect_round :: "app \<Rightarrow> app" where
  "reconnect_round s = timer_callback Reconnect (onclose s)"

text \<open>A connected application with text typed into both input fields.\<close>

definition demo_live :: app where
  "demo_live = (onopen (constructor demo_columns))
     \<lparr>human_input := str '' hi '', interrupt_input := str ''stop'',
      interrupt_modal_hidden := False\<rparr>"

text \<open>
  The timeline opened on an empty log, then three messages ingested out of time order;
  and the application after three messages of which the middle one has no valid date.
\<close>

definition demo_log :: app where
  "demo_log =
     snd (addMessage (Msg demo_unknown)
       (snd (addMessage (Msg demo_agent)
         (snd (addMessage (Msg demo_human)
           (snd (toggleTimelineView (constructor demo_columns))))))))"

definition demo_bad_dates :: app where
  "demo_bad_dates =
     snd (addMessage (Msg demo_agent)
       (snd (addMessage (Msg demo_undated)
         (snd (addMessage (Msg demo_late) (constructor demo_columns))))))"

text \<open>The two layout modes of the columns container: keyed by one role, or by the ordered
  pair \<open>first-second\<close>.\<close>

definition single_active :: "jsstring \<Rightarrow> layout" where
  "single_active a = \<lparr>has_active = True, data_active = Some a, data_dual_active = None\<rparr>"

definition dual_active :: "jsstring \<Rightarrow> jsstring \<Rightarrow> layout" where
  "dual_active a b =
     \<lparr>has_active = True, data_active = None, data_dual_active = Some (a @ str ''-'' @ b)\<rparr>"

text \<open>A column carries none of the three emphasis classes.\<close>

definition no_emphasis :: "column \<Rightarrow> bool" where
  "no_emphasis c = list_all (\<lambda>e. e \<notin> set (classList c)) emphasis_classes"

text \<open>
  The human column is both the user's selection and the last speaker; now a message of
  role ether arrives: the state in which the layout is recomputed.
\<close>

definition demo_focus :: app where
  "demo_focus =
     (setLastMessageColumn (str ''human'') (column_click (str ''human'') (constructor demo_columns)))
       \<lparr>lastMessageColumn := Some (str ''ether'')\<rparr>"

section \<open>Basic facts\<close>

lemma str_eq_iff [simp]: "str a = str b \<longleftrightarrow> a = b"
  by (simp add: str_def inj_on_def)

lemma str_Nil_iff [simp]: "str s = [] \<longleftrightarrow> s = []" "[] = str s \<longleftrightarrow> s = []"
  by (auto simp: str_def)

lemma and_then_simps [simp]:
  "and_then (None, s) f = f s"
  "and_then (Some e, s) f = (Some e, s)"
  by (simp_all add: and_then_def)

lemma updateColumnLayout_store [simp]:
  "messages (updateColumnLayout s) = messages s"
  "messageCounts (updateColumnLayout s) = messageCounts s"
  "timeline_hidden (updateColumnLayout s) = timeline_hidden s"
  "isConnected (updateColumnLayout s) = isConnected s"
  by (simp_all add: updateColumnLayout_def Let_def)

lemma setLastMessageColumn_store [simp]:
  "messages (setLastMessageColumn r s) = messages s"
  "messageCounts (setLastMessageColumn r s) = messageCounts s"
  "timeline_hidden (setLastMessageColumn r s) = timeline_hidden s"
  "isConnected (setLastMessageColumn r s) = isConnected s"
  by (simp_all add: setLastMessageColumn_def Let_def split: option.splits)

lemma renderMessageInColumn_store [simp]:
  "messages (renderMessageInColumn m s) = messages s"
  "messageCounts (renderMessageInColumn m s) = messageCounts s"
  "timeline_hidden (renderMessageInColumn m s) = timeline_hidden s"
  "isConnected (renderMessageInColumn m s) = isConnected s"
  by (simp_all add: renderMessageInColumn_def split: option.splits)

lemma updateMessageCount_fst [simp]:
  "fst (updateMessageCount r s) = (if selector_breaks r then Some SyntaxError else None)"
  by (simp add: updateMessageCount_def)

lemma updateMessageCount_store [simp]:
  "messages (snd (updateMessageCount r s)) = messages s"
  "messageCounts (snd (updateMessageCount r s)) = messageCounts s"
  "timeline_hidden (snd (updateMessageCount r s)) = timeline_hidden s"
  "isConnected (snd (updateMessageCount r s)) = isConnected s"
  by (simp_all add: updateMessageCount_def)

text \<open>Rendering the timeline, with or without an exception, writes the timeline only.\<close>

lemma forEach_append_timeline_frame:
  "(snd (forEach append_timeline es s))\<lparr>timeline_messages := t\<rparr> = s\<lparr>timeline_messages := t\<rparr>"
proof (induction es arbitrary: s)
  case Nil
  show ?case by simp
next
  case (Cons e es)
  show ?case
  proof (cases e)
    case (Msg m)
    then show ?thesis
      using Cons.IH [where s = "s\<lparr>timeline_messages := timeline_messages s @ [createTimelineMessageElement m]\<rparr>"]
      by simp
  qed simp_all
qed

lemma renderTimelineView_frame:
  "(snd (renderTimelineView s))\<lparr>timeline_messages := t\<rparr> = s\<lparr>timeline_messages := t\<rparr>"
  using forEach_append_timeline_frame [where s = "s\<lparr>timeline_messages := []\<rparr>" and t = t]
  by (simp add: renderTimelineView_def Let_def split: sum.splits)

lemma renderTimelineView_store [simp]:
  "messages (snd (renderTimelineView s)) = messages s"
  "messageCounts (snd (renderTimelineView s)) = messageCounts s"
  "timeline_hidden (snd (renderTimelineView s)) = timeline_hidden s"
  "isConnected (snd (renderTimelineView s)) = isConnected s"
  "userSelectedColumn (snd (renderTimelineView s)) = userSelectedColumn s"
  "lastMessageColumn (snd (renderTimelineView s)) = lastMessageColumn s"
  "container (snd (renderTimelineView s)) = container s"
  "columns (snd (renderTimelineView s)) = columns s"
  using renderTimelineView_frame [where s = s and t = "[]", THEN arg_cong, where f = messages]
    renderTimelineView_frame [where s = s and t = "[]", THEN arg_cong, where f = messageCounts]
    renderTimelineView_frame [where s = s and t = "[]", THEN arg_cong, where f = timeline_hidden]
    renderTimelineView_frame [where s = s and t = "[]", THEN arg_cong, where f = isConnected]
    renderTimelineView_frame [where s = s and t = "[]", THEN arg_cong, where f = userSelectedColumn]
    renderTimelineView_frame [where s = s and t = "[]", THEN arg_cong, where f = lastMessageColumn]
    renderTimelineView_frame [where s = s and t = "[]", THEN arg_cong, where f = container]
    renderTimelineView_frame [where s = s and t = "[]", THEN arg_cong, where f = columns]
  by simp_all

lemma addMessage_messages [simp]: "messages (snd (addMessage e s)) = messages s @ [e]"
  by (cases e) (auto simp: addMessage_def Let_def updateMessageCount_def)

lemma addMessage_messageCounts [simp]:
  "messageCounts (snd (addMessage (Msg m) s)) = increment (role m) (messageCounts s)"
  "messageCounts (snd (addMessage Undefined s)) = messageCounts s"
  "messageCounts (snd (addMessage Null s)) = messageCounts s"
  by (auto simp: addMessage_def Let_def updateMessageCount_def)

lemma addMessage_isConnected [simp]: "isConnected (snd (addMessage e s)) = isConnected s"
  by (cases e) (auto simp: addMessage_def Let_def updateMessageCount_def)

lemma constructor_store [simp]:
  "messages (constructor cols) = []"
  "messageCounts (constructor cols) = map (\<lambda>r. (r, Num 0)) known_roles"
  "timeline_hidden (constructor cols)"
  "columns (constructor cols) = cols"
  "userSelectedColumn (constructor cols) = None"
  "lastMessageColumn (constructor cols) = None"
  by (simp_all add: constructor_def disableControls_def updateConnectionStatus_def
      setupWebSocket_def)

section \<open>Message store: counters and log\<close>

lemma map_of_increment:
  "map_of (increment r counts) k =
     (if k = r \<and> r \<noteq> str ''__proto__''
      then Some (case map_of counts r of Some (Num n) \<Rightarrow> Num (n + 1) | _ \<Rightarrow> NaN)
      else map_of counts k)"
  by (simp add: increment_def update_conv')

lemma proto_not_known: "str ''__proto__'' \<notin> set known_roles"
  by (simp add: known_roles_def)

lemma known_roles_nonempty: "r \<in> set known_roles \<Longrightarrow> r \<noteq> []"
  by (auto simp: known_roles_def)

lemma known_roles_selector: "r \<in> set known_roles \<Longrightarrow> \<not> selector_breaks r"
  by (auto simp: known_roles_def selector_breaks_def str_def)

text \<open>
  The counters stay in step with the log through every call of \<open>addMessage\<close>, also through
  one that ends in an exception: the push and the counter write come first.
\<close>

lemma addMessage_consistent:
  assumes "counters_consistent s"
  shows "counters_consistent (snd (addMessage e s))"
  using assms proto_not_known
  by (cases e) (auto simp: counters_consistent_def list_all_iff map_of_increment)

lemma constructor_consistent: "counters_consistent (constructor cols)"
  by (simp add: counters_consistent_def known_roles_def)

lemma calls_consistent:
  "counters_consistent s \<Longrightarrow>
   counters_consistent (fold (\<lambda>e st. snd (addMessage e st)) es s)"
  by (induction es arbitrary: s) (simp_all add: addMessage_consistent)

text \<open>When \<open>addMessage\<close> raises and when it does not.\<close>

lemma addMessage_breaking_role:
  "selector_breaks (role m) \<Longrightarrow> fst (addMessage (Msg m) s) = Some SyntaxError"
  by (simp add: addMessage_def Let_def updateMessageCount_def)


lemma addMessage_hidden_ok:
  "\<not> selector_breaks (role m) \<Longrightarrow> timeline_hidden s \<Longrightarrow>
   fst (addMessage (Msg m) s) = None \<and> timeline_hidden (snd (addMessage (Msg m) s))"
  by (simp add: addMessage_def Let_def updateMessageCount_def)

lemma unknown_role_appended:
  "role m \<notin> set known_roles \<Longrightarrow>
   messages (snd (addMessage (Msg m) s)) = messages s @ [Msg m] \<and>
   (\<forall>r \<in> set known_roles.
      map_of (messageCounts (snd (addMessage (Msg m) s))) r = map_of (messageCounts s) r)"
  by (auto simp: map_of_increment)

text \<open>
  C1 at a message whose role is \<open>x"y\<close>, which is not one of the six: the message is
  appended to the log, but the selector that \<open>updateMessageCount\<close> builds from the role is
  malformed, so \<open>addMessage\<close> ends in a \<open>SyntaxError\<close> before the focus state is updated.
\<close>

theorem unknown_role_with_quote_raises:
  "role demo_quote \<notin> set known_roles \<and>
   fst (addMessage (Msg demo_quote) (constructor demo_columns)) = Some SyntaxError \<and>
   messages (snd (addMessage (Msg demo_quote) (constructor demo_columns))) = [Msg demo_quote] \<and>
   lastMessageColumn (snd (addMessage (Msg demo_quote) (constructor demo_columns))) = None"
proof -
  have breaks: "selector_breaks (role demo_quote)"
    by (simp add: demo_quote_def selector_breaks_def)
  have unknown: "role demo_quote \<notin> set known_roles"
    by (simp add: demo_quote_def known_roles_def str_def)
  have "lastMessageColumn (snd (addMessage (Msg demo_quote) (constructor demo_columns))) = None"
    using breaks
    by (simp add: addMessage_def Let_def updateMessageCount_def renderMessageInColumn_def
        split: option.splits)
  then show ?thesis
    using breaks unknown by (simp add: addMessage_breaking_role)
qed

section \<open>Receive path: malformed frames\<close>

lemma forEach_cases:
  "forEach f (x # xs) s =
     (if fst (f x s) = None then forEach f xs (snd (f x s)) else f x s)"
  by (cases "f x s") (auto simp: and_then_def)

lemma forEach_addMessage_isConnected [simp]:
  "isConnected (snd (forEach addMessage es s)) = isConnected s"
  by (induction es arbitrary: s) (simp_all add: forEach_cases del: forEach.simps(2))


lemma onmessage_isConnected [simp]: "isConnected (snd (onmessage f s)) = isConnected s"
proof (cases f)
  case Unparseable
  then show ?thesis by (simp add: onmessage_def)
next
  case (Parsed p)
  then show ?thesis
    by (cases p) (simp_all add: onmessage_def handleWebSocketMessage_def split: history.splits)
qed




section \<open>Receive path: history replay\<close>

lemma forEach_no_error:
  "fst (forEach f xs s) = None \<Longrightarrow> snd (forEach f xs s) = fold (\<lambda>x st. snd (f x st)) xs s"
proof (induction xs arbitrary: s)
  case Nil
  show ?case by simp
next
  case (Cons x xs)
  from Cons.prems have first: "fst (f x s) = None"
    by (simp add: forEach_cases del: forEach.simps(2) split: if_splits)
  with Cons.prems have "fst (forEach f xs (snd (f x s))) = None"
    by (simp add: forEach_cases del: forEach.simps(2))
  then have "snd (forEach f xs (snd (f x s))) = fold (\<lambda>x st. snd (f x st)) xs (snd (f x s))"
    by (rule Cons.IH)
  with first show ?case
    by (simp add: forEach_cases del: forEach.simps(2))
qed

lemma forEach_abort:
  "fst (forEach f pre s) = None \<Longrightarrow> fst (f x (snd (forEach f pre s))) \<noteq> None \<Longrightarrow>
   forEach f (pre @ x # post) s = f x (snd (forEach f pre s))"
proof (induction pre arbitrary: s)
  case Nil
  then show ?case
    by (auto simp: forEach_cases simp del: forEach.simps(2))
next
  case (Cons p pre)
  from Cons.prems(1) have first: "fst (f p s) = None"
    by (simp add: forEach_cases del: forEach.simps(2) split: if_splits)
  with Cons.prems have "forEach f (pre @ x # post) (snd (f p s))
      = f x (snd (forEach f pre (snd (f p s))))"
    by (intro Cons.IH) (simp_all add: forEach_cases del: forEach.simps(2))
  with first show ?case
    by (simp add: forEach_cases del: forEach.simps(2))
qed

lemma handle_NewMessage: "handleWebSocketMessage (NewMessage m) = addMessage m"
  by (rule ext) (simp add: handleWebSocketMessage_def)

lemma handle_History:
  "handleWebSocketMessage (ConnectionEstablished (History msgs)) s = forEach addMessage msgs s"
  by (cases msgs) (simp_all add: handleWebSocketMessage_def)

lemma deliver_live_messages: "messages (deliver_live msgs s) = messages s @ msgs"
  unfolding deliver_live_def
  by (induction msgs arbitrary: s) (simp_all add: onmessage_def handle_NewMessage)

text \<open>A history of message objects with well-formed selectors is replayed without error
  while the timeline is closed.\<close>

lemma forEach_hidden_ok:
  "list_all (\<lambda>e. is_message e \<and> (\<forall>m. e = Msg m \<longrightarrow> \<not> selector_breaks (role m))) es \<Longrightarrow>
   timeline_hidden s \<Longrightarrow> fst (forEach addMessage es s) = None"
proof (induction es arbitrary: s)
  case Nil
  show ?case by simp
next
  case (Cons e es)
  then obtain m where e: "e = Msg m" "\<not> selector_breaks (role m)"
    by (cases e) auto
  with Cons.prems(2) have "fst (addMessage e s) = None" "timeline_hidden (snd (addMessage e s))"
    using addMessage_hidden_ok [of m s] by simp_all
  with Cons show ?case
    by (simp add: forEach_cases del: forEach.simps(2))
qed

text \<open>
  C8 as stated fails.  With a history whose first message has the role \<open>x"y\<close>, the replay
  stops at that message, whose ingestion raises, and the second message never reaches the
  log; arriving live, each message has its own frame and both reach the log.
\<close>

theorem replay_aborts_live_continues:
  "messages (snd (handleWebSocketMessage
       (ConnectionEstablished (History [Msg demo_quote, Msg demo_human]))
       (constructor demo_columns))) = [Msg demo_quote] \<and>
   messages (deliver_live [Msg demo_quote, Msg demo_human] (constructor demo_columns))
     = [Msg demo_quote, Msg demo_human]"
proof -
  have "selector_breaks (role demo_quote)"
    by (simp add: demo_quote_def selector_breaks_def)
  then have "fst (addMessage (Msg demo_quote) (constructor demo_columns)) \<noteq> None"
    by (simp add: addMessage_breaking_role)
  then show ?thesis
    by (simp add: handle_History forEach_cases deliver_live_messages del: forEach.simps(2))
qed

text \<open>
  C8, amended.  A \<open>connection_established\<close> envelope carrying the history \<open>msgs\<close> replays
  the messages through \<open>addMessage\<close> in list order.  If the replay raises no error, it
  leaves the application in exactly the state reached by handling the same messages one
  by one, in the same order, as live \<open>new_message\<close> frames.  If the ingestion of a message
  raises an error, the replay ends with that call of \<open>addMessage\<close>: the messages after it
  are not ingested.
\<close>

theorem history_replay_equals_live:
  "(fst (handleWebSocketMessage (ConnectionEstablished (History msgs)) s) = None \<longrightarrow>
      snd (handleWebSocketMessage (ConnectionEstablished (History msgs)) s)
        = deliver_live msgs s) \<and>
   (fst (forEach addMessage pre s) = None \<and>
    fst (addMessage m (snd (forEach addMessage pre s))) \<noteq> None \<longrightarrow>
      handleWebSocketMessage (ConnectionEstablished (History (pre @ m # post))) s
        = addMessage m (snd (forEach addMessage pre s)))"
proof -
  have live: "deliver_live msgs s = fold (\<lambda>x st. snd (addMessage x st)) msgs s"
    by (simp add: deliver_live_def onmessage_def handle_NewMessage)
  show ?thesis
  proof (intro conjI impI)
    assume "fst (handleWebSocketMessage (ConnectionEstablished (History msgs)) s) = None"
    then show "snd (handleWebSocketMessage (ConnectionEstablished (History msgs)) s)
        = deliver_live msgs s"
      by (simp add: handle_History live forEach_no_error)
  next
    assume "fst (forEach addMessage pre s) = None \<and>
        fst (addMessage m (snd (forEach addMessage pre s))) \<noteq> None"
    then show "handleWebSocketMessage (ConnectionEstablished (History (pre @ m # post))) s
        = addMessage m (snd (forEach addMessage pre s))"
      unfolding handle_History by (blast intro: forEach_abort)
  qed
qed

theorem history_replay_equals_live_witness:
  "fst (handleWebSocketMessage (ConnectionEstablished (History [Msg demo_agent, Msg demo_human]))
        (constructor demo_columns)) = None \<and>
   snd (handleWebSocketMessage (ConnectionEstablished (History [Msg demo_agent, Msg demo_human]))
        (constructor demo_columns))
     = deliver_live [Msg demo_agent, Msg demo_human] (constructor demo_columns) \<and>
   fst (addMessage (Msg demo_quote)
        (snd (forEach addMessage [Msg demo_agent] (constructor demo_columns)))) \<noteq> None \<and>
   handleWebSocketMessage
       (ConnectionEstablished (History ([Msg demo_agent] @ Msg demo_quote # [Msg demo_human])))
       (constructor demo_columns)
     = addMessage (Msg demo_quote)
         (snd (forEach addMessage [Msg demo_agent] (constructor demo_columns)))"
proof -
  have ok: "fst (forEach addMessage [Msg demo_agent, Msg demo_human] (constructor demo_columns))
      = None"
    by (rule forEach_hidden_ok)
       (simp_all add: demo_agent_def demo_human_def selector_breaks_def str_def)
  have pre: "fst (forEach addMessage [Msg demo_agent] (constructor demo_columns)) = None"
    by (rule forEach_hidden_ok) (simp_all add: demo_agent_def selector_breaks_def str_def)
  have bad: "fst (addMessage (Msg demo_quote)
      (snd (forEach addMessage [Msg demo_agent] (constructor demo_columns)))) \<noteq> None"
    by (simp add: addMessage_breaking_role demo_quote_def selector_breaks_def
        del: forEach.simps)
  from history_replay_equals_live
    [of "[Msg demo_agent, Msg demo_human]" "constructor demo_columns" "[Msg demo_agent]"
        "Msg demo_quote" "[Msg demo_human]"]
  show ?thesis
    using ok pre bad by (simp only: handle_History simp_thms)
qed

section \<open>Connection manager: channel loss\<close>

lemma reconnect_round_iter:
  "ws_opened ((reconnect_round ^^ n) s) = ws_opened s + n \<and>
   scheduled ((reconnect_round ^^ n) s) = scheduled s @ replicate n (3000, Reconnect) \<and>
   isConnected ((reconnect_round ^^ Suc n) s) = False"
proof (induction n)
  case 0
  show ?case
    by (simp add: reconnect_round_def onclose_def Let_def setupWebSocket_def
        disableControls_def updateConnectionStatus_def)
next
  case (Suc n)
  then show ?case
    by (simp add: reconnect_round_def onclose_def Let_def setupWebSocket_def
        disableControls_def updateConnectionStatus_def replicate_append_same)
qed

text \<open>
  C7.  In every state, the \<open>close\<close> event clears the liveness flag, disables the three
  dependent controls and schedules exactly one timer, the reconnect, with delay 3000 ms.
  The reconnect callback opens a new socket whatever the state is.  After any number \<open>n\<close>
  of rounds of loss and reconnect, \<open>n\<close> further sockets have been opened and every round
  scheduled its reconnect with the same delay of 3000 ms: no growth, no cap.
\<close>

theorem close_schedules_one_reconnect:
  "isConnected (onclose s) = False \<and>
   send_btn_disabled (onclose s) \<and> interrupt_btn_disabled (onclose s) \<and>
   human_input_disabled (onclose s) \<and>
   scheduled (onclose s) = scheduled s @ [(3000, Reconnect)] \<and>
   ws_opened (timer_callback Reconnect s) = ws_opened s + 1 \<and>
   ws_opened ((reconnect_round ^^ n) s) = ws_opened s + n \<and>
   scheduled ((reconnect_round ^^ n) s) = scheduled s @ replicate n (3000, Reconnect)"
  by (simp add: reconnect_round_iter)
     (simp add: onclose_def Let_def setupWebSocket_def disableControls_def
        updateConnectionStatus_def)

theorem close_schedules_one_reconnect_witness:
  "isConnected (onclose (onopen (constructor demo_columns))) = False \<and>
   scheduled (onclose (onopen (constructor demo_columns))) = [(3000, Reconnect)] \<and>
   ws_opened ((reconnect_round ^^ 3) (onopen (constructor demo_columns))) = 4 \<and>
   scheduled ((reconnect_round ^^ 3) (onopen (constructor demo_columns)))
     = [(3000, Reconnect), (3000, Reconnect), (3000, Reconnect)]"
  using close_schedules_one_reconnect [of "onopen (constructor demo_columns)" 3]
  by (simp add: onopen_def constructor_def enableControls_def disableControls_def
      updateConnectionStatus_def setupWebSocket_def numeral_3_eq_3)

section \<open>Input controller\<close>

text \<open>Content is empty after trimming exactly when it consists of white space only.\<close>

lemma trim_empty_iff: "trim v = [] \<longleftrightarrow> (\<forall>c \<in> set v. is_space c)"
proof -
  have "trim v = [] \<longleftrightarrow> (\<forall>x \<in> set (dropWhile is_space v). is_space x)"
    by (simp add: trim_def)
  also have "\<dots> \<longleftrightarrow> dropWhile is_space v = []"
    using hd_dropWhile [of is_space v] by (cases "dropWhile is_space v") (auto simp del: dropWhile_eq_Nil_conv)
  also have "\<dots> \<longleftrightarrow> (\<forall>c \<in> set v. is_space c)"
    by simp
  finally show ?thesis .
qed

text \<open>
  C9.  \<open>sendHumanInput\<close> and \<open>confirmInterrupt\<close> return the state unchanged (nothing
  sent, input field and modal as they were) whenever the trimmed content of their input
  field is empty or the liveness flag is false.  Otherwise \<open>sendHumanInput\<close> sends one
  \<open>human_input\<close> envelope with the trimmed content and clears the input field, and
  \<open>confirmInterrupt\<close> sends one \<open>interrupt\<close> envelope with the trimmed content, hides the
  modal and clears its field; nothing else changes.
\<close>

theorem input_guards:
  "(trim (human_input s) = [] \<or> \<not> isConnected s \<longrightarrow> sendHumanInput s = s) \<and>
   (trim (interrupt_input s) = [] \<or> \<not> isConnected s \<longrightarrow> confirmInterrupt s = s) \<and>
   (trim (human_input s) \<noteq> [] \<and> isConnected s \<longrightarrow>
      sendHumanInput s =
        s\<lparr>ws_sent := ws_sent s @ [HumanInput (trim (human_input s))], human_input := []\<rparr>) \<and>
   (trim (interrupt_input s) \<noteq> [] \<and> isConnected s \<longrightarrow>
      confirmInterrupt s =
        s\<lparr>ws_sent := ws_sent s @ [Interrupt (trim (interrupt_input s))],
          interrupt_modal_hidden := True, interrupt_input := []\<rparr>)"
  by (simp add: sendHumanInput_def confirmInterrupt_def hideInterruptModal_def Let_def)

lemma demo_live_fields:
  "isConnected demo_live" "human_input demo_live = str '' hi ''"
  "interrupt_input demo_live = str ''stop''" "ws_sent demo_live = []"
  "\<not> isConnected (onclose demo_live)"
  by (simp_all add: demo_live_def onopen_def onclose_def Let_def constructor_def enableControls_def
      disableControls_def updateConnectionStatus_def setupWebSocket_def)

lemma trim_demo: "trim (str '' hi '') = str ''hi''" "trim (str ''stop'') = str ''stop''"
  by (simp_all add: trim_def str_def is_space_def)

theorem input_guards_witness:
  "sendHumanInput demo_live
     = demo_live\<lparr>ws_sent := [HumanInput (str ''hi'')], human_input := []\<rparr> \<and>
   confirmInterrupt demo_live
     = demo_live\<lparr>ws_sent := [Interrupt (str ''stop'')], interrupt_modal_hidden := True,
         interrupt_input := []\<rparr> \<and>
   sendHumanInput (onclose demo_live) = onclose demo_live \<and>
   confirmInterrupt (onclose demo_live) = onclose demo_live \<and>
   sendHumanInput (demo_live\<lparr>human_input := str ''  ''\<rparr>) = demo_live\<lparr>human_input := str ''  ''\<rparr>"
proof -
  have blank: "trim (human_input (demo_live\<lparr>human_input := str ''  ''\<rparr>)) = []"
    by (simp add: trim_def str_def is_space_def)
  have ne: "str ''hi'' \<noteq> []" "str ''stop'' \<noteq> []"
    by (simp_all add: str_def)
  show ?thesis
    using input_guards [of demo_live] input_guards [of "onclose demo_live"]
      input_guards [of "demo_live\<lparr>human_input := str ''  ''\<rparr>"] blank ne
    by (simp add: demo_live_fields trim_demo)
qed

section \<open>Role display names\<close>

text \<open>The six known roles get their labels; a role that is neither known nor a property
  name of \<open>Object.prototype\<close> is returned as it is.\<close>

lemma getRoleDisplayName_known:
  "getRoleDisplayName (str ''human'') = JString [55357, 56420, 32, 20154, 31867]"
  "getRoleDisplayName (str ''ether'') = JString [9889, 32, 20197, 22826]"
  "getRoleDisplayName (str ''product_ai'') = JString [55356, 57263, 32, 20135, 21697, 65, 73]"
  "getRoleDisplayName (str ''architect_ai'')
     = JString [55356, 57303, 65039, 32, 26550, 26500, 65, 73]"
  "getRoleDisplayName (str ''interface_ai'') = JString [55357, 56588, 32, 25509, 21475, 65, 73]"
  "getRoleDisplayName (str ''programmer_ai'')
     = JString [55357, 56507, 32, 31243, 24207, 21592, 65, 73]"
  by (simp_all add: getRoleDisplayName_def roleNames_def)

lemma map_of_roleNames_None: "r \<notin> set known_roles \<Longrightarrow> map_of roleNames r = None"
  by (simp add: roleNames_def known_roles_def)

lemma getRoleDisplayName_other:
  "r \<notin> set known_roles \<Longrightarrow> r \<notin> set object_prototype_keys \<Longrightarrow> getRoleDisplayName r = JString r"
  by (simp add: getRoleDisplayName_def map_of_roleNames_None)

text \<open>
  C10 at the role \<open>constructor\<close>, which is not one of the six: the lookup
  \<open>roleNames[role]\<close> finds the member inherited from \<open>Object.prototype\<close>, which is truthy,
  so \<open>getRoleDisplayName\<close> returns that member and not the role string.
\<close>

theorem getRoleDisplayName_inherited_key:
  "str ''constructor'' \<notin> set known_roles \<and>
   getRoleDisplayName (str ''constructor'') = ProtoMember (str ''constructor'') \<and>
   getRoleDisplayName (str ''constructor'') \<noteq> JString (str ''constructor'')"
  by (simp add: getRoleDisplayName_def roleNames_def known_roles_def object_prototype_keys_def)

section \<open>Content formatter\<close>

text \<open>
  What the matcher computes: \<open>search\<close> tries every start position, a literal prefix of a
  pattern consumes exactly its characters, and the horizontal-rule pattern holds exactly
  of the texts that contain three consecutive hyphens.
\<close>

lemma search_iff:
  "search p prev s \<longleftrightarrow>
     (\<exists>a b. s = a @ b \<and> match_here p (if a = [] then prev else Some (last a)) b)"
proof (induction s arbitrary: prev)
  case Nil
  then show ?case by simp
next
  case (Cons x xs)
  show ?case
  proof
    assume "search p prev (x # xs)"
    then consider "match_here p prev (x # xs)" | "search p (Some x) xs"
      by auto
    then show "\<exists>a b. x # xs = a @ b \<and> match_here p (if a = [] then prev else Some (last a)) b"
    proof cases
      case 1
      then have "x # xs = [] @ (x # xs) \<and>
          match_here p (if [] = ([]::nat list) then prev else Some (last [])) (x # xs)"
        by simp
      then show ?thesis by blast
    next
      case 2
      then obtain a b where ab: "xs = a @ b"
        "match_here p (if a = [] then Some x else Some (last a)) b"
        using Cons.IH by blast
      then have "x # xs = (x # a) @ b \<and>
          match_here p (if x # a = [] then prev else Some (last (x # a))) b"
        by (cases "a = []") simp_all
      then show ?thesis by blast
    qed
  next
    assume "\<exists>a b. x # xs = a @ b \<and> match_here p (if a = [] then prev else Some (last a)) b"
    then obtain a b where ab: "x # xs = a @ b"
      "match_here p (if a = [] then prev else Some (last a)) b"
      by blast
    show "search p prev (x # xs)"
    proof (cases a)
      case Nil
      with ab have "match_here p prev (x # xs)" by simp
      then show ?thesis by simp
    next
      case (Cons y ys)
      with ab have "xs = ys @ b" "match_here p (if ys = [] then Some x else Some (last ys)) b"
        by (auto split: if_splits)
      then have "search p (Some x) xs"
        using Cons.IH by blast
      then show ?thesis by simp
    qed
  qed
qed

lemma match_here_lits:
  "match_here (lits w @ ps) prev s \<longleftrightarrow>
     (\<exists>r. s = str w @ r \<and>
          match_here ps (if w = [] then prev else Some (of_char (last w))) r)"
proof (induction w arbitrary: prev s)
  case Nil
  then show ?case by (simp add: lits_def str_def)
next
  case (Cons c w)
  have step: "match_here (lits (c # w) @ ps) prev s \<longleftrightarrow>
      (\<exists>xs. s = of_char c # xs \<and> match_here (lits w @ ps) (Some (of_char c)) xs)"
    by (cases s) (auto simp: lits_def)
  show ?case
    unfolding step Cons.IH by (auto simp: str_def)
qed

lemma match_here_Many_last: "match_here [Many c] prev s"
  by (induction s arbitrary: prev) simp_all

lemma horizontal_rule_iff:
  "rx_test (lits ''---'' @ [Many (Lit 45)]) text \<longleftrightarrow> (\<exists>a b. text = a @ str ''---'' @ b)"
  by (simp add: rx_test_def search_iff match_here_lits match_here_Many_last) blast




section \<open>Timeline renderer\<close>

text \<open>
  On message objects with valid dates the comparator is consistent, and the sort is the
  stable sort by the time value.
\<close>

lemma insert_by_dated:
  "timestamp a \<noteq> None \<Longrightarrow> \<forall>b \<in> set bs. timestamp b \<noteq> None \<Longrightarrow>
   insert_by by_timestamp (Msg a) (map Msg bs)
     = Inr (map Msg (insort_key (the \<circ> timestamp) a bs))"
  by (induction bs) auto

lemma js_sort_dated:
  "\<forall>m \<in> set ms. timestamp m \<noteq> None \<Longrightarrow>
   js_sort by_timestamp (map Msg ms) = Inr (map Msg (sort_key (the \<circ> timestamp) ms))"
  by (induction ms) (simp_all add: insert_by_dated)

lemma array_sort_dated:
  "\<forall>m \<in> set ms. timestamp m \<noteq> None \<Longrightarrow>
   array_sort by_timestamp (map Msg ms) = Inr (map Msg (sort_key (the \<circ> timestamp) ms))"
  by (simp add: array_sort_def js_sort_dated filter_map comp_def)

lemma forEach_append_messages:
  "forEach append_timeline (map Msg ms) s
     = (None, s\<lparr>timeline_messages :=
                  timeline_messages s @ map createTimelineMessageElement ms\<rparr>)"
  by (induction ms arbitrary: s) simp_all

lemma tl_time_create: "tl_time \<circ> createTimelineMessageElement = timestamp"
  by (rule ext) (simp add: createTimelineMessageElement_def)

text \<open>Rendering reads the log only, so a second rendering repeats the first.\<close>

lemma renderTimelineView_twice:
  "renderTimelineView (snd (renderTimelineView s)) = renderTimelineView s"
proof -
  have "(snd (renderTimelineView s))\<lparr>timeline_messages := []\<rparr> = s\<lparr>timeline_messages := []\<rparr>"
    by (rule renderTimelineView_frame)
  then show ?thesis
    by (simp add: renderTimelineView_def sortedMessages_def Let_def)
qed

text \<open>
  C4 as stated fails.  The log holds three messages of which the middle one has a
  timestamp that does not parse: every comparison with it is \<open>NaN\<close>, the sort leaves the
  order as it is, and the timeline shows the entry of time 3000 before the one of time
  1000.
\<close>

theorem timeline_out_of_order:
  "messages demo_bad_dates = [Msg demo_late, Msg demo_undated, Msg demo_agent] \<and>
   fst (renderTimelineView demo_bad_dates) = None \<and>
   map tl_time (timeline_messages (snd (renderTimelineView demo_bad_dates)))
     = [Some 3000, None, Some 1000]"
proof -
  have log: "messages demo_bad_dates = [Msg demo_late, Msg demo_undated, Msg demo_agent]"
    by (simp add: demo_bad_dates_def)
  have "sortedMessages (demo_bad_dates\<lparr>timeline_messages := []\<rparr>)
      = Inr [Msg demo_late, Msg demo_undated, Msg demo_agent]"
    by (simp add: sortedMessages_def array_sort_def log demo_late_def demo_undated_def
        demo_agent_def)
  then show ?thesis
    using log
    by (simp add: renderTimelineView_def Let_def createTimelineMessageElement_def
        demo_late_def demo_undated_def demo_agent_def)
qed

text \<open>
  C4, amended.  For any log that holds message objects with valid timestamps only,
  \<open>renderTimelineView\<close> raises no error and fills the timeline with the elements of a sorted
  snapshot of the log: the snapshot is in non-decreasing order of time value (and so are
  the displayed times), it holds exactly the log's entries, and entries with the same
  timestamp keep their relative order of the log.  For any log at all, the stored log is
  not changed, and rendering a second time gives the same result as rendering once.
\<close>

theorem timeline_sorted_stable:
  "(messages s = map Msg ms \<and> (\<forall>m \<in> set ms. timestamp m \<noteq> None) \<longrightarrow>
      (\<exists>srt. sortedMessages s = Inr (map Msg srt) \<and>
         renderTimelineView s
           = (None, s\<lparr>timeline_messages := map createTimelineMessageElement srt\<rparr>) \<and>
         map tl_time (timeline_messages (snd (renderTimelineView s))) = map timestamp srt \<and>
         sorted (map (the \<circ> timestamp) srt) \<and>
         mset srt = mset ms \<and>
         (\<forall>t. filter (\<lambda>m. timestamp m = t) srt = filter (\<lambda>m. timestamp m = t) ms))) \<and>
   messages (snd (renderTimelineView s)) = messages s \<and>
   renderTimelineView (snd (renderTimelineView s)) = renderTimelineView s"
proof (intro conjI impI)
  assume valid: "messages s = map Msg ms \<and> (\<forall>m \<in> set ms. timestamp m \<noteq> None)"
  then have log: "messages s = map Msg ms" and dates: "\<forall>m \<in> set ms. timestamp m \<noteq> None"
    by simp_all
  let ?srt = "sort_key (the \<circ> timestamp) ms"
  have srt: "sortedMessages s = Inr (map Msg ?srt)"
    using log dates by (simp add: sortedMessages_def array_sort_dated)
  have render: "renderTimelineView s
      = (None, s\<lparr>timeline_messages := map createTimelineMessageElement ?srt\<rparr>)"
    using log dates
    by (simp add: renderTimelineView_def sortedMessages_def array_sort_dated Let_def
        forEach_append_messages)
  have times: "map tl_time (timeline_messages (snd (renderTimelineView s))) = map timestamp ?srt"
    by (simp add: render tl_time_create)
  have ordered: "sorted (map (the \<circ> timestamp) ?srt)"
    by simp
  have perm: "mset ?srt = mset ms"
    by simp
  have stable: "filter (\<lambda>m. timestamp m = t) ?srt = filter (\<lambda>m. timestamp m = t) ms" for t
  proof (cases t)
    case None
    with dates show ?thesis
      by simp
  next
    case (Some v)
    have "filter (\<lambda>m. (the \<circ> timestamp) m = v) ?srt = filter (\<lambda>m. (the \<circ> timestamp) m = v) ms"
      by (rule sort_key_stable)
    moreover have "filter (\<lambda>m. timestamp m = t) xs = filter (\<lambda>m. (the \<circ> timestamp) m = v) xs"
      if "set xs \<subseteq> set ms" for xs
      using that dates Some by (intro filter_cong) auto
    ultimately show ?thesis
      by simp
  qed
  show "\<exists>srt. sortedMessages s = Inr (map Msg srt) \<and>
      renderTimelineView s
        = (None, s\<lparr>timeline_messages := map createTimelineMessageElement srt\<rparr>) \<and>
      map tl_time (timeline_messages (snd (renderTimelineView s))) = map timestamp srt \<and>
      sorted (map (the \<circ> timestamp) srt) \<and>
      mset srt = mset ms \<and>
      (\<forall>t. filter (\<lambda>m. timestamp m = t) srt = filter (\<lambda>m. timestamp m = t) ms)"
    by (intro exI [of _ ?srt] conjI allI) (rule srt render times ordered perm stable)+
next
  show "messages (snd (renderTimelineView s)) = messages s"
    by simp
next
  show "renderTimelineView (snd (renderTimelineView s)) = renderTimelineView s"
    by (rule renderTimelineView_twice)
qed

lemma demo_log_messages: "messages demo_log = [Msg demo_human, Msg demo_agent, Msg demo_unknown]"
  by (simp add: demo_log_def toggleTimelineView_def)

theorem timeline_sorted_stable_witness:
  "messages demo_log = map Msg [demo_human, demo_agent, demo_unknown] \<and>
   map timestamp [demo_human, demo_agent, demo_unknown] = [Some 2000, Some 1000, Some 1000] \<and>
   renderTimelineView demo_log
     = (None, demo_log\<lparr>timeline_messages :=
                 map createTimelineMessageElement [demo_agent, demo_unknown, demo_human]\<rparr>) \<and>
   messages (snd (renderTimelineView demo_log)) = messages demo_log"
proof -
  have log: "messages demo_log = map Msg [demo_human, demo_agent, demo_unknown]"
    by (simp add: demo_log_messages)
  have dates: "\<forall>m \<in> set [demo_human, demo_agent, demo_unknown]. timestamp m \<noteq> None"
    by (simp add: demo_human_def demo_agent_def demo_unknown_def)
  have "sortedMessages demo_log = Inr (map Msg [demo_agent, demo_unknown, demo_human])"
    by (simp add: sortedMessages_def array_sort_def demo_log_messages
        demo_human_def demo_agent_def demo_unknown_def)
  with timeline_sorted_stable [of demo_log "[demo_human, demo_agent, demo_unknown]"] log dates
  show ?thesis
    by (auto simp: demo_human_def demo_agent_def demo_unknown_def)
qed

section \<open>Focus state machine\<close>

lemma updateColumnLayout_focus [simp]:
  "userSelectedColumn (updateColumnLayout s) = userSelectedColumn s"
  "lastMessageColumn (updateColumnLayout s) = lastMessageColumn s"
  by (simp_all add: updateColumnLayout_def Let_def)

lemma updateColumnLayout_container:
  "container (updateColumnLayout s) =
     (case activeColumns s of
        [] \<Rightarrow> \<lparr>has_active = False, data_active = None, data_dual_active = None\<rparr>
      | [a] \<Rightarrow> single_active a
      | a # b # _ \<Rightarrow> dual_active a b)"
  by (simp add: updateColumnLayout_def activeColumns_def Let_def single_active_def
      dual_active_def)

lemma setLastMessageColumn_focus [simp]:
  "userSelectedColumn (setLastMessageColumn r s) = userSelectedColumn s"
  "lastMessageColumn (setLastMessageColumn r s) = Some r"
  "container (setLastMessageColumn r s)
     = container (updateColumnLayout (s\<lparr>lastMessageColumn := Some r\<rparr>))"
  by (simp_all add: setLastMessageColumn_def Let_def split: option.splits)

lemma setUserSelectedColumn_focus [simp]:
  "userSelectedColumn (setUserSelectedColumn r s) = Some r"
  "lastMessageColumn (setUserSelectedColumn r s) = lastMessageColumn s"
  "container (setUserSelectedColumn r s)
     = container (updateColumnLayout (s\<lparr>userSelectedColumn := Some r\<rparr>))"
  by (simp_all add: setUserSelectedColumn_def Let_def)

lemma addMessage_focus:
  assumes "\<not> selector_breaks (role m)"
  shows "userSelectedColumn (snd (addMessage (Msg m) s)) = userSelectedColumn s"
    and "lastMessageColumn (snd (addMessage (Msg m) s)) = Some (role m)"
  using assms
  by (simp_all add: addMessage_def Let_def updateMessageCount_def renderMessageInColumn_def
      split: option.splits)

lemma addMessage_container:
  assumes "\<not> selector_breaks (role m)"
  shows "container (snd (addMessage (Msg m) s)) =
     (case activeColumns (s\<lparr>lastMessageColumn := Some (role m)\<rparr>) of
        [] \<Rightarrow> \<lparr>has_active = False, data_active = None, data_dual_active = None\<rparr>
      | [a] \<Rightarrow> single_active a
      | a # b # _ \<Rightarrow> dual_active a b)"
proof -
  have "activeColumns ((snd (updateMessageCount (role m) (renderMessageInColumn m
          (s\<lparr>messages := messages s @ [Msg m],
             messageCounts := increment (role m) (messageCounts s)\<rparr>))))
          \<lparr>lastMessageColumn := Some (role m)\<rparr>)
        = activeColumns (s\<lparr>lastMessageColumn := Some (role m)\<rparr>)"
    by (simp add: activeColumns_def renderMessageInColumn_def updateMessageCount_def
        split: option.splits)
  then show ?thesis
    using assms
    by (simp add: addMessage_def Let_def updateMessageCount_def updateColumnLayout_container)
qed

text \<open>
  C5.  Let \<open>A\<close> and \<open>B\<close> be distinct roles: non-empty strings that sit in a selector as
  plain text, as all six roles are.  From any state, a click on column \<open>A\<close> followed by
  the arrival of a message of role \<open>B\<close> gives the active list \<open>[A, B]\<close> and the dual-active
  layout keyed \<open>A-B\<close>, user selection first; a further message of role \<open>A\<close> gives the active
  list \<open>[A]\<close> and the single-active layout keyed \<open>A\<close>.
\<close>

theorem select_then_message_dual_then_single:
  assumes "A \<noteq> B" and "A \<noteq> []" and "B \<noteq> []"
    and "\<not> selector_breaks A" and "\<not> selector_breaks B"
    and "role mB = B" and "role mA = A"
  shows "activeColumns (snd (addMessage (Msg mB) (column_click A s))) = [A, B] \<and>
         container (snd (addMessage (Msg mB) (column_click A s))) = dual_active A B \<and>
         activeColumns (snd (addMessage (Msg mA) (snd (addMessage (Msg mB) (column_click A s)))))
           = [A] \<and>
         container (snd (addMessage (Msg mA) (snd (addMessage (Msg mB) (column_click A s)))))
           = single_active A"
  using assms
  by (simp add: addMessage_container addMessage_focus activeColumns_def column_click_def)

theorem select_then_message_dual_then_single_witness:
  "activeColumns (snd (addMessage (Msg demo_agent)
       (column_click (str ''human'') (constructor demo_columns))))
     = [str ''human'', str ''product_ai''] \<and>
   data_dual_active (container (snd (addMessage (Msg demo_agent)
       (column_click (str ''human'') (constructor demo_columns)))))
     = Some (str ''human-product_ai'') \<and>
   container (snd (addMessage (Msg demo_human) (snd (addMessage (Msg demo_agent)
       (column_click (str ''human'') (constructor demo_columns))))))
     = single_active (str ''human'')"
proof -
  have "str ''human'' \<noteq> str ''product_ai''" "str ''human'' \<noteq> []" "str ''product_ai'' \<noteq> []"
    "\<not> selector_breaks (str ''human'')" "\<not> selector_breaks (str ''product_ai'')"
    "role demo_agent = str ''product_ai''" "role demo_human = str ''human''"
    by (simp_all add: demo_agent_def demo_human_def known_roles_selector known_roles_def)
  from select_then_message_dual_then_single [OF this, of "constructor demo_columns"]
  show ?thesis
    by (simp add: dual_active_def str_def)
qed

section \<open>Focus state machine: stale emphasis\<close>

lemma set_class_add [simp]: "set (class_add new cl) = set cl \<union> set new"
  unfolding class_add_def by (induction new arbitrary: cl) auto

lemma class_remove_class_add:
  "set new \<subseteq> set old \<Longrightarrow> class_remove old (class_add new cl) = class_remove old cl"
  unfolding class_add_def class_remove_def by (induction new arbitrary: cl) auto

lemma class_remove_twice [simp]: "class_remove old (class_remove old cl) = class_remove old cl"
  by (simp add: class_remove_def)

lemma set_class_remove [simp]: "set (class_remove old cl) = set cl - set old"
  by (auto simp: class_remove_def)

lemma length_update_column [simp]: "length (update_column r f cs) = length cs"
  by (induction cs) simp_all

lemma update_column_nth:
  "i < length cs \<Longrightarrow>
   update_column r f cs ! i = cs ! i \<or>
   (data_role (cs ! i) = r \<and> update_column r f cs ! i = f (cs ! i))"
proof (induction cs arbitrary: i)
  case Nil
  then show ?case by simp
next
  case (Cons c cs)
  then show ?case by (cases i) auto
qed

lemma add_classes_role [simp]: "data_role (add_classes new c) = data_role c"
  by (simp add: add_classes_def)

lemma strip_emphasis_role [simp]: "data_role (strip_emphasis c) = data_role c"
  by (simp add: strip_emphasis_def)

lemma no_emphasis_strip: "no_emphasis (strip_emphasis c)"
  by (simp add: no_emphasis_def strip_emphasis_def emphasis_classes_def)

lemma selected_active:
  "truthy (userSelectedColumn s) \<Longrightarrow> the (userSelectedColumn s) \<in> set (activeColumns s)"
  by (simp add: activeColumns_def)

lemma last_active:
  "truthy (lastMessageColumn s) \<Longrightarrow> the (lastMessageColumn s) \<in> set (activeColumns s)"
  by (cases "userSelectedColumn s"; cases "lastMessageColumn s") (auto simp: activeColumns_def)

lemma truthy_Some: "truthy v \<Longrightarrow> v = Some (the v)"
  by (cases v) simp_all

lemma columns_updateColumnLayout:
  "columns (updateColumnLayout s) =
     (let cs1 = map strip_emphasis (columns s);
          cs2 = (if truthy (userSelectedColumn s)
                 then update_column (the (userSelectedColumn s))
                        (add_classes [''active'', ''user-selected'']) cs1
                 else cs1)
      in if truthy (lastMessageColumn s)
         then update_column (the (lastMessageColumn s))
                (add_classes [''active'', ''message-active'']) cs2
         else cs2)"
  by (cases "userSelectedColumn s"; cases "lastMessageColumn s";
      simp add: updateColumnLayout_def activeColumns_def Let_def)

text \<open>
  Every column after the recomputation is its stripped former self, with the classes of
  the user selection added if it is the column found for the user selection, and those of
  the last message added if it is the column found for the last message.
\<close>

lemma updateColumnLayout_column:
  assumes "i < length (columns s)"
  shows "\<exists>u l.
      columns (updateColumnLayout s) ! i
        = (if l then add_classes [''active'', ''message-active''] else id)
            ((if u then add_classes [''active'', ''user-selected''] else id)
               (strip_emphasis (columns s ! i))) \<and>
      (u \<longrightarrow> truthy (userSelectedColumn s) \<and>
             data_role (columns s ! i) = the (userSelectedColumn s)) \<and>
      (l \<longrightarrow> truthy (lastMessageColumn s) \<and>
             data_role (columns s ! i) = the (lastMessageColumn s))"
proof -
  let ?c1 = "strip_emphasis (columns s ! i)"
  let ?cs1 = "map strip_emphasis (columns s)"
  let ?cs2 = "if truthy (userSelectedColumn s)
              then update_column (the (userSelectedColumn s))
                     (add_classes [''active'', ''user-selected'']) ?cs1
              else ?cs1"
  let ?cs3 = "if truthy (lastMessageColumn s)
              then update_column (the (lastMessageColumn s))
                     (add_classes [''active'', ''message-active'']) ?cs2
              else ?cs2"
  have one: "?cs1 ! i = ?c1" and len1: "i < length ?cs1"
    using assms by simp_all
  obtain u where two:
    "?cs2 ! i = (if u then add_classes [''active'', ''user-selected''] else id) ?c1"
    "u \<longrightarrow> truthy (userSelectedColumn s) \<and> data_role (columns s ! i) = the (userSelectedColumn s)"
  proof (cases "truthy (userSelectedColumn s)")
    case False
    with one have "?cs2 ! i = (if False then add_classes [''active'', ''user-selected''] else id) ?c1"
      by simp
    then show ?thesis
      using that [of False] by simp
  next
    case True
    from update_column_nth [OF len1, of "the (userSelectedColumn s)"
        "add_classes [''active'', ''user-selected'']"]
    show ?thesis
    proof
      assume "update_column (the (userSelectedColumn s))
          (add_classes [''active'', ''user-selected'']) ?cs1 ! i = ?cs1 ! i"
      with True one show ?thesis
        using that [of False] by simp
    next
      assume "data_role (?cs1 ! i) = the (userSelectedColumn s) \<and>
          update_column (the (userSelectedColumn s))
            (add_classes [''active'', ''user-selected'']) ?cs1 ! i
          = add_classes [''active'', ''user-selected''] (?cs1 ! i)"
      with True one assms show ?thesis
        using that [of True] by simp
    qed
  qed
  have len2: "i < length ?cs2"
    using assms by simp
  have role2: "data_role (?cs2 ! i) = data_role (columns s ! i)"
    using two(1) by (cases u) simp_all
  obtain l where three:
    "?cs3 ! i = (if l then add_classes [''active'', ''message-active''] else id) (?cs2 ! i)"
    "l \<longrightarrow> truthy (lastMessageColumn s) \<and> data_role (columns s ! i) = the (lastMessageColumn s)"
  proof (cases "truthy (lastMessageColumn s)")
    case False
    then have "?cs3 ! i = (if False then add_classes [''active'', ''message-active''] else id) (?cs2 ! i)"
      by simp
    then show ?thesis
      using that [of False] by simp
  next
    case True
    from update_column_nth [OF len2, of "the (lastMessageColumn s)"
        "add_classes [''active'', ''message-active'']"]
    show ?thesis
    proof
      assume "update_column (the (lastMessageColumn s))
          (add_classes [''active'', ''message-active'']) ?cs2 ! i = ?cs2 ! i"
      with True have "?cs3 ! i
          = (if False then add_classes [''active'', ''message-active''] else id) (?cs2 ! i)"
        by simp
      then show ?thesis
        using that [of False] by simp
    next
      assume "data_role (?cs2 ! i) = the (lastMessageColumn s) \<and>
          update_column (the (lastMessageColumn s))
            (add_classes [''active'', ''message-active'']) ?cs2 ! i
          = add_classes [''active'', ''message-active''] (?cs2 ! i)"
      with True role2 have "?cs3 ! i
          = (if True then add_classes [''active'', ''message-active''] else id) (?cs2 ! i)"
        and "truthy (lastMessageColumn s) \<and> data_role (columns s ! i) = the (lastMessageColumn s)"
        by simp_all
      then show ?thesis
        using that [of True] by simp
    qed
  qed
  have "columns (updateColumnLayout s) ! i = ?cs3 ! i"
    by (simp add: columns_updateColumnLayout Let_def)
  with two three show ?thesis
    by (intro exI [of _ u] exI [of _ l]) simp
qed

text \<open>
  C6.  Recomputing the layout strips the three emphasis classes from every column before
  the new emphasis is applied.  Afterwards every column has its role and its other
  classes as before; it carries \<open>user-selected\<close> only if it is the current user selection,
  \<open>message-active\<close> only if it is the column of the current last message, and \<open>active\<close> only
  if its role is in the newly computed active list; a column outside that list is exactly
  its former self without the three classes.
\<close>

theorem stale_emphasis_stripped:
  "length (columns (updateColumnLayout s)) = length (columns s) \<and>
   (\<forall>i < length (columns s).
      data_role (columns (updateColumnLayout s) ! i) = data_role (columns s ! i) \<and>
      class_remove emphasis_classes (classList (columns (updateColumnLayout s) ! i))
        = class_remove emphasis_classes (classList (columns s ! i)) \<and>
      (''user-selected'' \<in> set (classList (columns (updateColumnLayout s) ! i)) \<longrightarrow>
         userSelectedColumn s = Some (data_role (columns s ! i))) \<and>
      (''message-active'' \<in> set (classList (columns (updateColumnLayout s) ! i)) \<longrightarrow>
         lastMessageColumn s = Some (data_role (columns s ! i))) \<and>
      (''active'' \<in> set (classList (columns (updateColumnLayout s) ! i)) \<longrightarrow>
         data_role (columns s ! i) \<in> set (activeColumns s)) \<and>
      (data_role (columns s ! i) \<notin> set (activeColumns s) \<longrightarrow>
         columns (updateColumnLayout s) ! i = strip_emphasis (columns s ! i) \<and>
         no_emphasis (columns (updateColumnLayout s) ! i)))"
proof (intro conjI allI impI)
  show "length (columns (updateColumnLayout s)) = length (columns s)"
    by (simp add: columns_updateColumnLayout Let_def)
next
  fix i
  assume i: "i < length (columns s)"
  let ?c = "columns s ! i" and ?c' = "columns (updateColumnLayout s) ! i"
  from updateColumnLayout_column [OF i] obtain u l where
    eq: "?c' = (if l then add_classes [''active'', ''message-active''] else id)
               ((if u then add_classes [''active'', ''user-selected''] else id)
                  (strip_emphasis ?c))"
    and u: "u \<longrightarrow> truthy (userSelectedColumn s) \<and> data_role ?c = the (userSelectedColumn s)"
    and l: "l \<longrightarrow> truthy (lastMessageColumn s) \<and> data_role ?c = the (lastMessageColumn s)"
    by blast
  have classes: "set (classList ?c') =
      (set (classList ?c) - set emphasis_classes)
        \<union> (if u then {''active'', ''user-selected''} else {})
        \<union> (if l then {''active'', ''message-active''} else {})"
    unfolding eq by (cases u; cases l) (auto simp: add_classes_def strip_emphasis_def)
  show "data_role ?c' = data_role ?c"
    unfolding eq by (cases u; cases l) simp_all
  show "class_remove emphasis_classes (classList ?c') = class_remove emphasis_classes (classList ?c)"
    unfolding eq
    by (cases u; cases l)
       (simp_all add: add_classes_def strip_emphasis_def class_remove_class_add emphasis_classes_def)
  show "userSelectedColumn s = Some (data_role ?c)" if "''user-selected'' \<in> set (classList ?c')"
    using that u truthy_Some [of "userSelectedColumn s"]
    unfolding classes by (cases u; cases l) (auto simp: emphasis_classes_def)
  show "lastMessageColumn s = Some (data_role ?c)" if "''message-active'' \<in> set (classList ?c')"
    using that l truthy_Some [of "lastMessageColumn s"]
    unfolding classes by (cases u; cases l) (auto simp: emphasis_classes_def)
  show "data_role ?c \<in> set (activeColumns s)" if "''active'' \<in> set (classList ?c')"
    using that u l selected_active [of s] last_active [of s]
    unfolding classes by (cases u; cases l) (auto simp: emphasis_classes_def)
  have out: "\<not> u \<and> \<not> l" if "data_role ?c \<notin> set (activeColumns s)"
    using that u l selected_active [of s] last_active [of s] by auto
  show "?c' = strip_emphasis ?c" if "data_role ?c \<notin> set (activeColumns s)"
    using out [OF that] unfolding eq by simp
  show "no_emphasis ?c'" if "data_role ?c \<notin> set (activeColumns s)"
    using out [OF that] unfolding eq by (simp add: no_emphasis_strip)
qed

lemma columns_setUserSelectedColumn:
  "columns (setUserSelectedColumn r s)
     = update_column r (add_classes [''user-selected''])
         (columns (updateColumnLayout (s\<lparr>userSelectedColumn := Some r\<rparr>)))"
  by (simp add: setUserSelectedColumn_def Let_def)

lemma columns_setLastMessageColumn:
  "columns (setLastMessageColumn r s)
     = (let cs = columns (updateColumnLayout (s\<lparr>lastMessageColumn := Some r\<rparr>))
        in case find_column r cs of
             None \<Rightarrow> cs
           | Some c \<Rightarrow> update_column r (add_classes [''recently-active'']) cs)"
  by (simp add: setLastMessageColumn_def Let_def split: option.splits)

lemma demo_selected_columns:
  "columns (column_click (str ''human'') (constructor demo_columns))
     = \<lparr>data_role = str ''human'', col_messages = [], count_shown = None,
         classList = [''column'', ''active'', ''user-selected'']\<rparr>
       # map (\<lambda>r. \<lparr>data_role = r, col_messages = [], count_shown = None,
                     classList = [''column'']\<rparr>)
           (tl known_roles)"
  by (simp add: column_click_def columns_setUserSelectedColumn columns_updateColumnLayout
      demo_columns_def known_roles_def strip_emphasis_def add_classes_def class_add_def
      class_remove_def emphasis_classes_def)

lemma demo_selected_focus:
  "userSelectedColumn (column_click (str ''human'') (constructor demo_columns))
     = Some (str ''human'')"
  by (simp add: column_click_def)

lemma demo_focus_eval:
  "userSelectedColumn demo_focus = Some (str ''human'')"
  "lastMessageColumn demo_focus = Some (str ''ether'')"
  "length (columns demo_focus) = 6"
  "data_role (columns demo_focus ! 0) = str ''human''"
  "classList (columns demo_focus ! 0)
     = [''column'', ''active'', ''user-selected'', ''message-active'', ''recently-active'']"
  by (simp_all add: demo_focus_def columns_setLastMessageColumn columns_updateColumnLayout
      demo_selected_columns demo_selected_focus known_roles_def strip_emphasis_def add_classes_def
      class_add_def class_remove_def emphasis_classes_def Let_def)

theorem stale_emphasis_stripped_witness:
  "''message-active'' \<in> set (classList (columns demo_focus ! 0)) \<and>
   lastMessageColumn demo_focus \<noteq> Some (data_role (columns demo_focus ! 0)) \<and>
   ''message-active'' \<notin> set (classList (columns (updateColumnLayout demo_focus) ! 0)) \<and>
   class_remove emphasis_classes (classList (columns (updateColumnLayout demo_focus) ! 0))
     = [''column'', ''recently-active'']"
proof -
  have i: "0 < length (columns demo_focus)"
    by (simp add: demo_focus_eval)
  have other: "lastMessageColumn demo_focus \<noteq> Some (data_role (columns demo_focus ! 0))"
    by (simp add: demo_focus_eval)
  from stale_emphasis_stripped [of demo_focus] i
  have "class_remove emphasis_classes (classList (columns (updateColumnLayout demo_focus) ! 0))
      = class_remove emphasis_classes (classList (columns demo_focus ! 0))"
    and "''message-active'' \<in> set (classList (columns (updateColumnLayout demo_focus) ! 0)) \<longrightarrow>
      lastMessageColumn demo_focus = Some (data_role (columns demo_focus ! 0))"
    by blast+
  then show ?thesis
    using other by (auto simp: demo_focus_eval class_remove_def emphasis_classes_def)
qed

end
